theory Spec2Isabelle
  imports Complex_Main "HOL-Library.Sublist" "HOL-Library.Multiset"
begin

section \<open>Python strings\<close>

text \<open>
  A Python 3 \<open>str\<close> is a sequence of Unicode code points, and slicing, \<open>strip\<close> and
  \<open>in\<close> work on code points. The model is therefore a list of natural numbers, one per
  code point. The Korean literals of the source are written out as code points; ASCII
  literals are written through \<open>asc\<close>.
\<close>

type_synonym pystr = "nat list"

definition asc :: "string \<Rightarrow> pystr" where
  "asc s = map of_char s"

text \<open>
  \<open>str.isspace\<close> for one code point: the characters \<open>str.strip()\<close> removes when it is
  called without an argument.
\<close>

definition py_isspace :: "nat \<Rightarrow> bool" where
  "py_isspace c \<longleftrightarrow>
     (0x09 \<le> c \<and> c \<le> 0x0D) \<or> (0x1C \<le> c \<and> c \<le> 0x20) \<or> c = 0x85 \<or> c = 0xA0 \<or>
     c = 0x1680 \<or> (0x2000 \<le> c \<and> c \<le> 0x200A) \<or> c = 0x2028 \<or> c = 0x2029 \<or>
     c = 0x202F \<or> c = 0x205F \<or> c = 0x3000"

definition py_strip :: "pystr \<Rightarrow> pystr" where
  "py_strip s = rev (dropWhile py_isspace (rev (dropWhile py_isspace s)))"

text \<open>\<open>sub in s\<close> on strings: \<open>sub\<close> occurs in \<open>s\<close> as a contiguous run.\<close>

fun py_in :: "pystr \<Rightarrow> pystr \<Rightarrow> bool" where
  "py_in sub [] = (sub = [])"
| "py_in sub (c # cs) = (prefix sub (c # cs) \<or> py_in sub cs)"

text \<open>\<open>sep.join(parts)\<close>.\<close>

fun py_join :: "pystr \<Rightarrow> pystr list \<Rightarrow> pystr" where
  "py_join sep [] = []"
| "py_join sep [p] = p"
| "py_join sep (p # q # ps) = p @ sep @ py_join sep (q # ps)"

text \<open>
  A lone surrogate is a code point from U+D800 to U+DFFF. A Python \<open>str\<close> may hold one,
  and UTF-8 cannot encode it.
\<close>

definition is_surrogate :: "nat \<Rightarrow> bool" where
  "is_surrogate c \<longleftrightarrow> 0xD800 \<le> c \<and> c \<le> 0xDFFF"

section \<open>Medicine records\<close>

text \<open>
  A medicine record is one JSON object of the \<open>medicines\<close> array, a Python \<open>dict\<close> after
  \<open>json.load\<close>. Every field is an optional string: a key is absent, maps to JSON
  \<open>null\<close> (Python \<open>None\<close>) or maps to a string.
\<close>

datatype jval = JNull | JStr pystr

type_synonym medicine = "pystr \<rightharpoonup> jval"

text \<open>
  The exceptions of the model: the two built-in ones that work on a record can raise, the
  failures of the index storage and of the remote embedding and language-model services,
  and the error of printing a string that the console encoding cannot encode.
\<close>

datatype py_error = TypeError | KeyError | StorageError | ServiceError | UnicodeEncodeError

text \<open>\<open>medicine.get(key, default)\<close>; \<open>medicine.get(key)\<close> is the call with default \<open>None\<close>.\<close>

definition py_get :: "medicine \<Rightarrow> pystr \<Rightarrow> jval \<Rightarrow> jval" where
  "py_get medicine key dflt = (case medicine key of None \<Rightarrow> dflt | Some v \<Rightarrow> v)"

text \<open>\<open>medicine[key]\<close>, which raises \<open>KeyError\<close> on an absent key.\<close>

definition py_getitem :: "medicine \<Rightarrow> pystr \<Rightarrow> py_error + jval" where
  "py_getitem medicine key = (case medicine key of None \<Rightarrow> Inl KeyError | Some v \<Rightarrow> Inr v)"

text \<open>The truth value of a value in an \<open>if\<close>: \<open>None\<close> and the empty string are false.\<close>

fun py_truthy :: "jval \<Rightarrow> bool" where
  "py_truthy JNull = False"
| "py_truthy (JStr s) = (s \<noteq> [])"

text \<open>A value inside an f-string, \<open>f"{v}"\<close>.\<close>

fun py_format :: "jval \<Rightarrow> pystr" where
  "py_format JNull = asc ''None''"
| "py_format (JStr s) = s"

text \<open>\<open>v[:100]\<close>: the first 100 code points of a string; \<open>None\<close> is not subscriptable.\<close>

fun py_slice100 :: "jval \<Rightarrow> py_error + pystr" where
  "py_slice100 JNull = Inl TypeError"
| "py_slice100 (JStr s) = Inr (take 100 s)"

section \<open>Document formatter\<close>

text \<open>
  The ordered (key, label) pairs of the permit schema. The labels are, in order: medicine
  name, manufacturer, efficacy, usage and dosage, precaution warning, precautions,
  interactions, side effects, storage method.
\<close>

definition permit_fields :: "(pystr \<times> pystr) list" where
  "permit_fields =
    [(asc ''itemName'', [0xC758, 0xC57D, 0xD488, 0xBA85]),
     (asc ''entpName'', [0xC81C, 0xC870, 0xC0AC]),
     (asc ''efcyQesitm'', [0xD6A8, 0xB2A5, 0xD6A8, 0xACFC]),
     (asc ''useMethodQesitm'', [0xC6A9, 0xBC95, 0xC6A9, 0xB7C9]),
     (asc ''atpnWarnQesitm'', [0xC8FC, 0xC758, 0xC0AC, 0xD56D, 0x20, 0xACBD, 0xACE0]),
     (asc ''atpnQesitm'', [0xC8FC, 0xC758, 0xC0AC, 0xD56D]),
     (asc ''intrcQesitm'', [0xC0C1, 0xD638, 0xC791, 0xC6A9]),
     (asc ''seQesitm'', [0xBD80, 0xC791, 0xC6A9]),
     (asc ''depositMethodQesitm'', [0xBCF4, 0xAD00, 0xBC29, 0xBC95])]"

text \<open>
  The ordered (candidate keys, label) pairs of the overview schema. The labels are, in
  order: medicine name, manufacturer, appearance, shape, front colour, back colour, class,
  prescription status.
\<close>

definition overview_fields :: "(pystr list \<times> pystr) list" where
  "overview_fields =
    [([asc ''item_name'', asc ''ITEM_NAME''], [0xC758, 0xC57D, 0xD488, 0xBA85]),
     ([asc ''entp_name'', asc ''ENTP_NAME''], [0xC81C, 0xC870, 0xC0AC]),
     ([asc ''chart'', asc ''CHART''], [0xC131, 0xC0C1]),
     ([asc ''drug_shape'', asc ''DRUG_SHAPE''], [0xC758, 0xC57D, 0xD488, 0x20, 0xBAA8, 0xC591]),
     ([asc ''color_class1'', asc ''COLOR_CLASS1''], [0xC0C9, 0xC0C1, 0x20, 0xC55E]),
     ([asc ''color_class2'', asc ''COLOR_CLASS2''], [0xC0C9, 0xC0C1, 0x20, 0xB4A4]),
     ([asc ''class_name'', asc ''CLASS_NAME''], [0xC57D, 0xD488, 0x20, 0xBD84, 0xB958]),
     ([asc ''etc_otc_name'', asc ''ETC_OTC_NAME''], [0xC804, 0xBB38, 0x2F, 0xC77C, 0xBC18])]"

text \<open>
  The permit branch: \<open>for field, label in fields: if medicine.get(field):
  text_parts.append(f"{label}: {medicine[field]}")\<close>.
\<close>

fun permit_loop :: "medicine \<Rightarrow> (pystr \<times> pystr) list \<Rightarrow> pystr list \<Rightarrow> py_error + pystr list" where
  "permit_loop medicine [] text_parts = Inr text_parts"
| "permit_loop medicine ((field, label) # fields) text_parts =
     (if py_truthy (py_get medicine field JNull)
      then (case py_getitem medicine field of
              Inl e \<Rightarrow> Inl e
            | Inr v \<Rightarrow> permit_loop medicine fields (text_parts @ [label @ asc '': '' @ py_format v]))
      else permit_loop medicine fields text_parts)"

text \<open>
  The inner loop of the overview branch, which stops at the first candidate key with a
  true value: \<open>for field in field_names: if medicine.get(field): append; break\<close>.
\<close>

fun candidate_loop :: "medicine \<Rightarrow> pystr list \<Rightarrow> pystr \<Rightarrow> pystr list \<Rightarrow> py_error + pystr list" where
  "candidate_loop medicine [] label text_parts = Inr text_parts"
| "candidate_loop medicine (field # field_names) label text_parts =
     (if py_truthy (py_get medicine field JNull)
      then (case py_getitem medicine field of
              Inl e \<Rightarrow> Inl e
            | Inr v \<Rightarrow> Inr (text_parts @ [label @ asc '': '' @ py_format v]))
      else candidate_loop medicine field_names label text_parts)"

fun overview_loop :: "medicine \<Rightarrow> (pystr list \<times> pystr) list \<Rightarrow> pystr list \<Rightarrow> py_error + pystr list" where
  "overview_loop medicine [] text_parts = Inr text_parts"
| "overview_loop medicine ((field_names, label) # fields) text_parts =
     (case candidate_loop medicine field_names label text_parts of
        Inl e \<Rightarrow> Inl e
      | Inr text_parts' \<Rightarrow> overview_loop medicine fields text_parts')"

text \<open>
  \<open>_format_medicine_data(medicine, source_type)\<close>: the permit branch when \<open>source_type\<close>
  is the string \<open>permit\<close>, the overview branch for any other string; the result is
  \<open>None\<close> when no line was collected.
\<close>

definition format_medicine_data :: "medicine \<Rightarrow> pystr \<Rightarrow> py_error + pystr option" where
  "format_medicine_data medicine source_type =
     (case (if source_type = asc ''permit''
            then permit_loop medicine permit_fields []
            else overview_loop medicine overview_fields []) of
        Inl e \<Rightarrow> Inl e
      | Inr text_parts \<Rightarrow>
          Inr (if text_parts \<noteq> [] then Some (py_join [0x0A] text_parts) else None))"

section \<open>Corpus ingestion\<close>

record document =
  doc_text :: pystr
  doc_source :: pystr
  doc_item_name :: pystr

text \<open>
  The loop over the records of the permit file, inside the \<open>try\<close> of that file. The
  list \<open>documents\<close> is appended to in place, so an exception leaves the documents
  collected so far in it; the second component is the exception that ended the loop.
\<close>

fun permit_records :: "medicine list \<Rightarrow> document list \<Rightarrow> document list \<times> py_error option" where
  "permit_records [] documents = (documents, None)"
| "permit_records (medicine # rest) documents =
     (case format_medicine_data medicine (asc ''permit'') of
        Inl e \<Rightarrow> (documents, Some e)
      | Inr None \<Rightarrow> permit_records rest documents
      | Inr (Some t) \<Rightarrow>
          if t \<noteq> [] then
            (case py_slice100 (py_get medicine (asc ''itemName'') (JStr [])) of
               Inl e \<Rightarrow> (documents, Some e)
             | Inr name \<Rightarrow>
                 permit_records rest
                   (documents @ [\<lparr>doc_text = t, doc_source = asc ''permit'', doc_item_name = name\<rparr>]))
          else permit_records rest documents)"

text \<open>
  The same loop for the overview file, where the name in the metadata is
  \<open>(medicine.get("item_name") or medicine.get("ITEM_NAME", ""))[:100]\<close>.
\<close>

definition overview_item_name :: "medicine \<Rightarrow> py_error + pystr" where
  "overview_item_name medicine =
     py_slice100 (if py_truthy (py_get medicine (asc ''item_name'') JNull)
                  then py_get medicine (asc ''item_name'') JNull
                  else py_get medicine (asc ''ITEM_NAME'') (JStr []))"

fun overview_records :: "medicine list \<Rightarrow> document list \<Rightarrow> document list \<times> py_error option" where
  "overview_records [] documents = (documents, None)"
| "overview_records (medicine # rest) documents =
     (case format_medicine_data medicine (asc ''overview'') of
        Inl e \<Rightarrow> (documents, Some e)
      | Inr None \<Rightarrow> overview_records rest documents
      | Inr (Some t) \<Rightarrow>
          if t \<noteq> [] then
            (case overview_item_name medicine of
               Inl e \<Rightarrow> (documents, Some e)
             | Inr name \<Rightarrow>
                 overview_records rest
                   (documents @ [\<lparr>doc_text = t, doc_source = asc ''overview'', doc_item_name = name\<rparr>]))
          else overview_records rest documents)"

text \<open>
  What the run finds on disk and at the embedding service. A source file is missing,
  cannot be opened or parsed as an object, or holds the list
  \<open>data.get('medicines', [])\<close>. The persisted index directory is absent, or present
  with the result that \<open>load_index_from_storage\<close> gives on it. An index is opaque: it
  stands for the documents it was built from. \<open>from_documents\<close> is
  \<open>VectorStoreIndex.from_documents\<close> and \<open>persist\<close> is
  \<open>index.storage_context.persist\<close>; both may raise.
\<close>

datatype source_file = Missing | Unreadable | Parsed "medicine list"

datatype index = VectorStoreIndex "document list"

record world =
  index_dir :: "(py_error + index) option"
  e_data :: source_file
  n_data :: source_file
  from_documents :: "document list \<Rightarrow> py_error + index"
  persist :: "index \<Rightarrow> py_error option"

text \<open>The file-system and service calls a run makes, in order.\<close>

datatype path = IndexPath | EDataPath | NDataPath

datatype event =
    PathExists path
  | ReadJson path
  | LoadIndexFromStorage
  | FromDocuments "document list"
  | Persist

text \<open>
  \<open>_load_data\<close>: each file is read only if it exists; an exception inside the \<open>try\<close> of a
  file (opening, parsing or a record) is caught and printed, and the documents appended
  before it stay in the list.
\<close>

definition load_data :: "world \<Rightarrow> document list \<times> event list" where
  "load_data w =
     (let (documents, ev1) =
            (case e_data w of
               Missing \<Rightarrow> ([], [PathExists EDataPath])
             | Unreadable \<Rightarrow> ([], [PathExists EDataPath, ReadJson EDataPath])
             | Parsed medicines \<Rightarrow>
                 (fst (permit_records medicines []), [PathExists EDataPath, ReadJson EDataPath]));
          (documents, ev2) =
            (case n_data w of
               Missing \<Rightarrow> (documents, [PathExists NDataPath])
             | Unreadable \<Rightarrow> (documents, [PathExists NDataPath, ReadJson NDataPath])
             | Parsed medicines \<Rightarrow>
                 (fst (overview_records medicines documents),
                  [PathExists NDataPath, ReadJson NDataPath]))
      in (documents, ev1 @ ev2))"

section \<open>Index construction\<close>

text \<open>
  The query engine of \<open>_setup_query_engine\<close>: a retriever over the index with
  \<open>similarity_top_k = 10\<close>, the \<open>tree_summarize\<close> synthesizer and one similarity
  postprocessor with \<open>similarity_cutoff = 0.3\<close>. Similarity scores are rational numbers
  here; the literal \<open>0.3\<close> is written \<open>3 / 10\<close> and \<open>0.31\<close> is written \<open>31 / 100\<close>.
\<close>

record query_engine =
  retriever_index :: index
  similarity_top_k :: nat
  similarity_cutoff :: rat
  response_mode :: pystr

record llm_module =
  index :: "index option"
  query_engine :: "query_engine option"

definition setup_query_engine :: "index \<Rightarrow> query_engine" where
  "setup_query_engine ix =
     \<lparr>retriever_index = ix, similarity_top_k = 10, similarity_cutoff = 3 / 10,
      response_mode = asc ''tree_summarize''\<rparr>"

text \<open>
  \<open>_build_index\<close>, started from \<open>index = None\<close> and \<open>query_engine = None\<close>. An
  exception of the storage or embedding calls is not caught here and leaves the
  constructor. An index object counts as true in \<open>if self.index\<close>, so the query engine
  is set up whenever an index was loaded or built.
\<close>

definition build_index :: "world \<Rightarrow> (py_error + llm_module) \<times> event list" where
  "build_index w =
     (case index_dir w of
        Some stored \<Rightarrow>
          (case stored of
             Inl e \<Rightarrow> (Inl e, [PathExists IndexPath, LoadIndexFromStorage])
           | Inr ix \<Rightarrow>
               (Inr \<lparr>index = Some ix, query_engine = Some (setup_query_engine ix)\<rparr>,
                [PathExists IndexPath, LoadIndexFromStorage]))
      | None \<Rightarrow>
          (let (documents, evs) = load_data w in
           if documents \<noteq> [] then
             (case from_documents w documents of
                Inl e \<Rightarrow> (Inl e, PathExists IndexPath # evs @ [FromDocuments documents])
              | Inr ix \<Rightarrow>
                  (case persist w ix of
                     Some e \<Rightarrow>
                       (Inl e, PathExists IndexPath # evs @ [FromDocuments documents, Persist])
                   | None \<Rightarrow>
                       (Inr \<lparr>index = Some ix, query_engine = Some (setup_query_engine ix)\<rparr>,
                        PathExists IndexPath # evs @ [FromDocuments documents, Persist])))
           else (Inr \<lparr>index = None, query_engine = None\<rparr>, PathExists IndexPath # evs)))"

section \<open>Retrieval\<close>




section \<open>Question enhancement\<close>

text \<open>The preamble: answer the following question from the medicine database.\<close>

definition preamble :: pystr where
  "preamble =
    [0xC758, 0xC57D, 0xD488, 0x20, 0xC815, 0xBCF4, 0x20, 0xB370, 0xC774, 0xD130, 0xBCA0, 0xC774,
     0xC2A4, 0xB97C, 0x20, 0xBC14, 0xD0D5, 0xC73C, 0xB85C, 0x20, 0xB2E4, 0xC74C, 0x20, 0xC9C8,
     0xBB38, 0xC5D0, 0x20, 0xB2F5, 0xD574, 0xC8FC, 0xC138, 0xC694, 0x2E, 0xA, 0xA]"

text \<open>The label of the OCR block: this is the medicine information the user gave as input.\<close>

definition ocr_label :: pystr where
  "ocr_label =
    [0xC0AC, 0xC6A9, 0xC790, 0xAC00, 0x20, 0xC785, 0xB825, 0xC73C, 0xB85C, 0x20, 0xB123, 0xC740,
     0x20, 0xC758, 0xC57D, 0xD488, 0x20, 0xC815, 0xBCF4, 0xC785, 0xB2C8, 0xB2E4, 0x20, 0x3A, 0x20]"

text \<open>The label of the question line.\<close>

definition question_label :: pystr where
  "question_label = [0xC9C8, 0xBB38, 0x3A, 0x20]"

text \<open>
  The answer-style instructions: explain for a layperson, include important precautions,
  lead with the key point, answer only what was asked.
\<close>

definition style_instructions :: pystr where
  "style_instructions =
    [0xB2F5, 0xBCC0, 0xC740, 0x20, 0xC77C, 0xBC18, 0xC778, 0xC774, 0x20, 0xC774, 0xD574, 0xD558,
     0xAE30, 0x20, 0xC27D, 0xAC8C, 0x20, 0xC124, 0xBA85, 0xD574, 0xC8FC, 0xC2DC, 0xACE0, 0x2C,
     0x20, 0xC911, 0xC694, 0xD55C, 0x20, 0xC8FC, 0xC758, 0xC0AC, 0xD56D, 0xC774, 0x20, 0xC788,
     0xB2E4, 0xBA74, 0x20, 0xBC18, 0xB4DC, 0xC2DC, 0x20, 0xD3EC, 0xD568, 0xD574, 0xC8FC, 0xC138,
     0xC694, 0x2E, 0x20, 0xD575, 0xC2EC, 0x20, 0xC694, 0xC810, 0xC744, 0x20, 0xBA3C, 0xC800,
     0x20, 0xC774, 0xC57C, 0xAE30, 0xD558, 0xACE0, 0x2C, 0x20, 0xAC00, 0xAE09, 0xC801, 0x20,
     0xBB3C, 0xC5B4, 0xBCF8, 0x20, 0xC9C8, 0xBB38, 0xC758, 0x20, 0xD575, 0xC2EC, 0x20, 0xB0B4,
     0xC6A9, 0xB9CC, 0x20, 0xB300, 0xB2F5, 0xD574, 0xC8FC, 0xC138, 0xC694, 0x2E, 0x20, 0xC9C8,
     0xBB38, 0xC5D0, 0x20, 0xD3EC, 0xD568, 0xB418, 0xC9C0, 0x20, 0xC54A, 0xB294, 0x20, 0xB0B4,
     0xC6A9, 0xC740, 0x20, 0xB2F5, 0xBCC0, 0xD558, 0xC9C0, 0x20, 0xB9C8, 0xC138, 0xC694, 0x2E]"

text \<open>
  The keywords looked for in the question: side effect; usage, dosage; interaction,
  together.
\<close>

definition side_effect_term :: pystr where
  "side_effect_term = [0xBD80, 0xC791, 0xC6A9]"

definition usage_term :: pystr where
  "usage_term = [0xC6A9, 0xBC95]"

definition dosage_term :: pystr where
  "dosage_term = [0xC6A9, 0xB7C9]"

definition interaction_term :: pystr where
  "interaction_term = [0xC0C1, 0xD638, 0xC791, 0xC6A9]"

definition together_term :: pystr where
  "together_term = [0xAC19, 0xC774]"

text \<open>The three category instructions appended after the style instructions.\<close>

definition side_effect_instruction :: pystr where
  "side_effect_instruction =
    [0x20, 0xBD80, 0xC791, 0xC6A9, 0xACFC, 0x20, 0xC774, 0xC0C1, 0xBC18, 0xC751, 0x20, 0xC815,
     0xBCF4, 0xB97C, 0x20, 0xC911, 0xC2EC, 0xC73C, 0xB85C, 0x20, 0xC124, 0xBA85, 0xD574, 0xC8FC,
     0xC138, 0xC694, 0x2E]"

definition dosage_instruction :: pystr where
  "dosage_instruction =
    [0x20, 0xC54C, 0xC57D, 0xC758, 0x20, 0xACBD, 0xC6B0, 0x20, 0xBA87, 0x20, 0xC54C, 0x20, 0xB2E8,
     0xC704, 0xB85C, 0x2C, 0x20, 0xC561, 0xCCB4, 0xC758, 0x20, 0xACBD, 0xC6B0, 0x20, 0x6D, 0x67,
     0x20, 0xB2E8, 0xC704, 0xB85C, 0x20, 0xC124, 0xBA85, 0xD574, 0xC8FC, 0xC138, 0xC694, 0x2E,
     0x20, 0xC0AC, 0xC6A9, 0xBC95, 0x20, 0xB610, 0xB294, 0x20, 0xC6A9, 0xB7C9, 0xC744, 0x20,
     0xC911, 0xC2EC, 0xC73C, 0xB85C, 0x20, 0xC124, 0xBA85, 0xD574, 0xC8FC, 0xC138, 0xC694, 0x2E]"

definition interaction_instruction :: pystr where
  "interaction_instruction =
    [0x20, 0xC57D, 0xBB3C, 0x20, 0xC0C1, 0xD638, 0xC791, 0xC6A9, 0xACFC, 0x20, 0xBCD1, 0xC6A9,
     0x20, 0xAE08, 0xAE30, 0x20, 0xC815, 0xBCF4, 0xB97C, 0x20, 0xC911, 0xC2EC, 0xC73C, 0xB85C,
     0x20, 0xC124, 0xBA85, 0xD574, 0xC8FC, 0xC138, 0xC694, 0x2E]"

text \<open>
  \<open>_enhance_question(question, ocr_context)\<close>, with the successive \<open>enhanced += ...\<close>
  as successive bindings. \<open>if ocr_context:\<close> is false for \<open>None\<close> and for the empty
  string.
\<close>

definition enhance_question :: "pystr \<Rightarrow> pystr option \<Rightarrow> pystr" where
  "enhance_question question ocr_context =
     (let enhanced = preamble;
          enhanced = (case ocr_context of
                        None \<Rightarrow> enhanced
                      | Some c \<Rightarrow> if c \<noteq> [] then enhanced @ ocr_label @ c @ [0xA, 0xA]
                                  else enhanced);
          enhanced = enhanced @ question_label @ question @ [0xA, 0xA];
          enhanced = enhanced @ style_instructions
      in if py_in side_effect_term question then enhanced @ side_effect_instruction
         else if py_in usage_term question \<or> py_in dosage_term question
              then enhanced @ dosage_instruction
         else if py_in interaction_term question \<or> py_in together_term question
              then enhanced @ interaction_instruction
         else enhanced)"

section \<open>Query\<close>

text \<open>The two fixed answers: no relevant information found; an error occurred.\<close>

definition not_found_message :: pystr where
  "not_found_message =
    [0xC8C4, 0xC1A1, 0xD569, 0xB2C8, 0xB2E4, 0x2E, 0x20, 0xAD00, 0xB828, 0xB41C, 0x20, 0xC815,
     0xBCF4, 0xB97C, 0x20, 0xCC3E, 0xC744, 0x20, 0xC218, 0x20, 0xC5C6, 0xC2B5, 0xB2C8, 0xB2E4, 0x2E]"

definition error_message :: pystr where
  "error_message =
    [0xC8C4, 0xC1A1, 0xD569, 0xB2C8, 0xB2E4, 0x2E, 0x20, 0xC9C8, 0xBB38, 0x20, 0xCC98, 0xB9AC,
     0x20, 0xC911, 0x20, 0xC624, 0xB958, 0xAC00, 0x20, 0xBC1C, 0xC0DD, 0xD588, 0xC2B5, 0xB2C8,
     0xB2E4, 0x2E]"

text \<open>
  \<open>print(s)\<close> on a console that encodes as UTF-8: the whole line is encoded when it is
  written, and a lone surrogate in it raises \<open>UnicodeEncodeError\<close>.
\<close>

definition py_print :: "pystr \<Rightarrow> py_error option" where
  "py_print s = (if list_ex is_surrogate s then Some UnicodeEncodeError else None)"

text \<open>
  The fixed parts of the three lines \<open>query\<close> prints: the progress line around
  \<open>question[:50]\<close>, the notice that an OCR context is included, and the prefix of the
  line that reports an exception.
\<close>

definition progress_prefix :: pystr where
  "progress_prefix =
    [0x1F4AD, 0x20, 0xC9C8, 0xBB38, 0x20, 0xCC98, 0xB9AC, 0x20, 0xC911, 0x3A, 0x20, 0x27]"

definition progress_suffix :: pystr where
  "progress_suffix = [0x2E, 0x2E, 0x2E, 0x27]"

definition ocr_notice :: pystr where
  "ocr_notice =
    [0x20, 0x20, 0x1F4C4, 0x20, 0x4F, 0x43, 0x52, 0x20, 0xCEE8, 0xD14D, 0xC2A4, 0xD2B8, 0x20,
     0xD3EC, 0xD568]"

definition error_prefix :: pystr where
  "error_prefix =
    [0x274C, 0x20, 0xC9C8, 0xBB38, 0x20, 0xCC98, 0xB9AC, 0x20, 0xC911, 0x20, 0xC624, 0xB958,
     0x3A, 0x20]"

text \<open>
  The two external calls of \<open>query\<close>, each followed by \<open>str(response)\<close>: the query
  engine on the enhanced prompt, and the direct completion of the language model. Either
  may raise; what they raise is an \<open>Exception\<close>, given here with the text \<open>str(e)\<close>
  that the handler prints. An interrupt from the keyboard is not an outcome of these
  calls.
\<close>

record services =
  engine_query :: "query_engine \<Rightarrow> pystr \<Rightarrow> (py_error \<times> pystr) + pystr"
  llm_complete :: "pystr \<Rightarrow> (py_error \<times> pystr) + pystr"

text \<open>
  The branch on \<open>self.query_engine\<close> inside the \<open>try\<close>: the query engine when it is
  set, the direct completion otherwise.
\<close>

definition generate_answer ::
    "services \<Rightarrow> llm_module \<Rightarrow> pystr \<Rightarrow> (py_error \<times> pystr) + pystr" where
  "generate_answer sv self enhanced_question =
     (case query_engine self of
        Some qe \<Rightarrow> engine_query sv qe enhanced_question
      | None \<Rightarrow> llm_complete sv enhanced_question)"

text \<open>
  The body of the \<open>try\<close> in \<open>query\<close>: the generated answer, replaced by the fixed
  message when \<open>not answer or not answer.strip()\<close>.
\<close>

definition query_body ::
    "services \<Rightarrow> llm_module \<Rightarrow> pystr \<Rightarrow> (py_error \<times> pystr) + pystr" where
  "query_body sv self enhanced_question =
     (case generate_answer sv self enhanced_question of
        Inl e \<Rightarrow> Inl e
      | Inr answer \<Rightarrow>
          Inr (if answer = [] \<or> py_strip answer = [] then not_found_message else answer))"

text \<open>
  \<open>query(question, ocr_context)\<close>. Before the \<open>try\<close> the prompt is built, the progress
  line with \<open>question[:50]\<close> is printed and, \<open>if ocr_context\<close>, the notice; an
  exception of these prints leaves \<open>query\<close>. The handler \<open>except Exception as e\<close>
  prints the prefix with \<open>str(e)\<close> and returns the fixed error message; an exception of
  that print leaves \<open>query\<close> too.
\<close>

definition query :: "services \<Rightarrow> llm_module \<Rightarrow> pystr \<Rightarrow> pystr option \<Rightarrow> py_error + pystr" where
  "query sv self question ocr_context =
     (let enhanced_question = enhance_question question ocr_context
      in case py_print (progress_prefix @ take 50 question @ progress_suffix) of
           Some e \<Rightarrow> Inl e
         | None \<Rightarrow>
             (case (case ocr_context of
                      None \<Rightarrow> None
                    | Some c \<Rightarrow> if c \<noteq> [] then py_print ocr_notice else None) of
                Some e \<Rightarrow> Inl e
              | None \<Rightarrow>
                  (case query_body sv self enhanced_question of
                     Inl (e, msg) \<Rightarrow>
                       (case py_print (error_prefix @ msg) of
                          Some e' \<Rightarrow> Inl e'
                        | None \<Rightarrow> Inr error_message)
                   | Inr answer \<Rightarrow> Inr answer)))"

section \<open>OCR context\<close>

text \<open>
  The template of \<open>format_for_llm\<close>: a heading line (information extracted from the
  medicine box) before the text, and two sentences after it.
\<close>

definition ocr_heading :: pystr where
  "ocr_heading =
    [0x5B, 0xC57D, 0xD488, 0x20, 0xC0C1, 0xC790, 0xC5D0, 0xC11C, 0x20, 0xCD94, 0xCD9C, 0xB41C,
     0x20, 0xC815, 0xBCF4, 0x5D, 0xA]"

definition ocr_closing :: pystr where
  "ocr_closing =
    [0xA, 0xA, 0xC704, 0x20, 0xC815, 0xBCF4, 0xB294, 0x20, 0xC0AC, 0xC6A9, 0xC790, 0xAC00, 0x20,
     0xC81C, 0xC2DC, 0xD55C, 0x20, 0xC57D, 0xD488, 0x20, 0xC0C1, 0xC790, 0xC5D0, 0xC11C, 0x20,
     0x4F, 0x43, 0x52, 0xB85C, 0x20, 0xCD94, 0xCD9C, 0xD55C, 0x20, 0xB0B4, 0xC6A9, 0xC785, 0xB2C8,
     0xB2E4, 0x2E, 0xA, 0xC774, 0x20, 0xC815, 0xBCF4, 0xB97C, 0x20, 0xCC38, 0xACE0, 0xD558, 0xC5EC,
     0x20, 0xC9C8, 0xBB38, 0xC5D0, 0x20, 0xB2F5, 0xBCC0, 0xD574, 0xC8FC, 0xC138, 0xC694, 0x2E]"

definition format_for_llm :: "pystr option \<Rightarrow> pystr option" where
  "format_for_llm ocr_text =
     (case ocr_text of
        None \<Rightarrow> None
      | Some t \<Rightarrow>
          if t = [] then None
          else (let cleaned_text = py_strip t
                in if cleaned_text = [] then None
                   else Some (ocr_heading @ cleaned_text @ ocr_closing)))"

section \<open>Vocabulary of the properties\<close>

text \<open>A key of a record holds a non-empty value: it is present and maps to a non-empty string.\<close>

definition nonempty_at :: "medicine \<Rightarrow> pystr \<Rightarrow> bool" where
  "nonempty_at medicine key =
     (case medicine key of None \<Rightarrow> False | Some JNull \<Rightarrow> False | Some (JStr s) \<Rightarrow> s \<noteq> [])"

text \<open>The string under a key, empty when there is none.\<close>

definition str_at :: "medicine \<Rightarrow> pystr \<Rightarrow> pystr" where
  "str_at medicine key =
     (case medicine key of None \<Rightarrow> [] | Some JNull \<Rightarrow> [] | Some (JStr s) \<Rightarrow> s)"

text \<open>The recognized keys of a schema variant, in the order they are tried.\<close>

definition recognized_keys :: "pystr \<Rightarrow> pystr list" where
  "recognized_keys source_type =
     (if source_type = asc ''permit'' then map fst permit_fields
      else concat (map fst overview_fields))"

text \<open>
  The logical fields of a schema variant in their priority order, each with its candidate
  keys and its label; a permit field has one candidate key.
\<close>

definition schema_fields :: "pystr \<Rightarrow> (pystr list \<times> pystr) list" where
  "schema_fields source_type =
     (if source_type = asc ''permit'' then map (\<lambda>(key, label). ([key], label)) permit_fields
      else overview_fields)"

text \<open>A logical field is non-empty when one of its candidate keys holds a non-empty value.\<close>

definition field_nonempty :: "medicine \<Rightarrow> pystr list \<Rightarrow> bool" where
  "field_nonempty medicine keys = (\<exists>key\<in>set keys. nonempty_at medicine key)"

text \<open>The value of a logical field: the string under its first non-empty candidate key.\<close>

definition field_value :: "medicine \<Rightarrow> pystr list \<Rightarrow> pystr" where
  "field_value medicine keys =
     (case find (nonempty_at medicine) keys of None \<Rightarrow> [] | Some key \<Rightarrow> str_at medicine key)"

text \<open>
  The lines the specification asks for: one \<open>label: value\<close> line per non-empty logical
  field, in the priority order of the variant.
\<close>

definition expected_lines :: "medicine \<Rightarrow> pystr \<Rightarrow> pystr list" where
  "expected_lines medicine source_type =
     map (\<lambda>(keys, label). label @ asc '': '' @ field_value medicine keys)
       (filter (\<lambda>(keys, label). field_nonempty medicine keys) (schema_fields source_type))"

text \<open>
  The specification's rule for the two casings of an overview field: the lower-case key
  when it is populated, else the upper-case key when that is populated, else no line.
\<close>

fun casing_lines :: "medicine \<Rightarrow> pystr list \<Rightarrow> pystr \<Rightarrow> pystr list" where
  "casing_lines medicine [lower, upper] label =
     (if nonempty_at medicine lower then [label @ asc '': '' @ str_at medicine lower]
      else if nonempty_at medicine upper then [label @ asc '': '' @ str_at medicine upper]
      else [])"
| "casing_lines medicine keys label = []"

text \<open>The upper-case form of an ASCII letter; other code points are unchanged.\<close>

definition ascii_upper :: "nat \<Rightarrow> nat" where
  "ascii_upper c = (if 0x61 \<le> c \<and> c \<le> 0x7A then c - 0x20 else c)"

text \<open>A string is empty or consists only of whitespace.\<close>

definition whitespace_only :: "pystr \<Rightarrow> bool" where
  "whitespace_only s = (\<forall>c\<in>set s. py_isspace c)"

text \<open>A string can be printed: it holds no lone surrogate.\<close>

definition printable :: "pystr \<Rightarrow> bool" where
  "printable s = (\<forall>c\<in>set s. \<not> is_surrogate c)"

text \<open>Services for the examples: one that echoes the prompt, one that raises with a given text.\<close>

definition echo_services :: services where
  "echo_services = \<lparr>engine_query = (\<lambda>qe p. Inr p), llm_complete = (\<lambda>p. Inr p)\<rparr>"

definition failing_services :: "pystr \<Rightarrow> services" where
  "failing_services msg =
     \<lparr>engine_query = (\<lambda>qe p. Inl (ServiceError, msg)),
      llm_complete = (\<lambda>p. Inl (ServiceError, msg))\<rparr>"

text \<open>The prompt up to and including the style instructions, before any category suffix.\<close>

definition prompt_body :: "pystr \<Rightarrow> pystr option \<Rightarrow> pystr" where
  "prompt_body question ocr_context =
     preamble @
     (case ocr_context of
        None \<Rightarrow> []
      | Some c \<Rightarrow> if c \<noteq> [] then ocr_label @ c @ [0xA, 0xA] else []) @
     question_label @ question @ [0xA, 0xA] @ style_instructions"

section \<open>Facts about strings\<close>

lemma asc_eq_iff [simp]: "asc s = asc t \<longleftrightarrow> s = t"
  unfolding asc_def by (simp add: inj_map_eq_map inj_of_char)

lemma asc_colon_ne: "asc '': '' \<noteq> []"
  by (simp add: asc_def)

lemma py_strip_Nil: "py_strip [] = []"
  by (simp add: py_strip_def)

lemma py_strip_Nil_iff: "py_strip s = [] \<longleftrightarrow> (\<forall>c\<in>set s. py_isspace c)"
proof
  assume "py_strip s = []"
  then have all: "\<forall>c\<in>set (dropWhile py_isspace s). py_isspace c"
    by (simp add: py_strip_def dropWhile_eq_Nil_conv)
  have "dropWhile py_isspace s = []"
  proof (rule ccontr)
    assume ne: "dropWhile py_isspace s \<noteq> []"
    then have "\<not> py_isspace (hd (dropWhile py_isspace s))"
      by (rule hd_dropWhile)
    moreover from ne have "hd (dropWhile py_isspace s) \<in> set (dropWhile py_isspace s)"
      by simp
    ultimately show False using all by blast
  qed
  then show "\<forall>c\<in>set s. py_isspace c"
    by (simp add: dropWhile_eq_Nil_conv)
next
  assume "\<forall>c\<in>set s. py_isspace c"
  then have d: "dropWhile py_isspace s = []"
    by simp
  show "py_strip s = []"
    unfolding py_strip_def d by simp
qed

lemma whitespace_only_strip: "whitespace_only s \<longleftrightarrow> py_strip s = []"
  by (simp add: whitespace_only_def py_strip_Nil_iff)

text \<open>Stripping removes a whitespace prefix and a whitespace suffix, and nothing else.\<close>

lemma py_strip_decomp:
  "\<exists>a b. s = a @ py_strip s @ b \<and> whitespace_only a \<and> whitespace_only b"
proof -
  let ?d = "dropWhile py_isspace s"
  let ?r = "rev ?d"
  have "rev (dropWhile py_isspace ?r) @ rev (takeWhile py_isspace ?r) =
        rev (takeWhile py_isspace ?r @ dropWhile py_isspace ?r)"
    by (simp only: rev_append)
  also have "\<dots> = rev ?r"
    by (simp only: takeWhile_dropWhile_id)
  also have "\<dots> = ?d"
    by (simp only: rev_rev_ident)
  finally have d: "?d = py_strip s @ rev (takeWhile py_isspace ?r)"
    by (simp only: py_strip_def)
  have "s = takeWhile py_isspace s @ ?d"
    by simp
  with d have "s = takeWhile py_isspace s @ py_strip s @ rev (takeWhile py_isspace ?r)"
    by simp
  moreover have "whitespace_only (takeWhile py_isspace s)"
    by (auto simp: whitespace_only_def dest: set_takeWhileD)
  moreover have "whitespace_only (rev (takeWhile py_isspace ?r))"
    by (auto simp: whitespace_only_def dest: set_takeWhileD)
  ultimately show ?thesis by blast
qed

text \<open>\<open>sub in s\<close> holds exactly when \<open>s\<close> is some prefix, then \<open>sub\<close>, then some suffix.\<close>

lemma py_in_sublist: "py_in sub s \<longleftrightarrow> sublist sub s"
  by (induction s) (simp_all add: sublist_Cons_right)

lemma py_join_ne: "ps \<noteq> [] \<Longrightarrow> hd ps \<noteq> [] \<Longrightarrow> py_join sep ps \<noteq> []"
  by (induction sep ps rule: py_join.induct) simp_all

section \<open>Facts about the formatter\<close>

lemma truthy_get_iff: "py_truthy (py_get m k JNull) \<longleftrightarrow> nonempty_at m k"
  by (simp add: py_get_def nonempty_at_def split: option.splits jval.splits)

text \<open>The guard \<open>medicine.get(field)\<close> excludes the \<open>KeyError\<close> of \<open>medicine[field]\<close>.\<close>

lemma getitem_nonempty:
  "nonempty_at m k \<Longrightarrow> \<exists>v. py_getitem m k = Inr v \<and> py_format v = str_at m k"
  by (auto simp: py_getitem_def nonempty_at_def str_at_def split: option.splits jval.splits)

lemma permit_loop_eq:
  "permit_loop m fs parts =
     Inr (parts @ map (\<lambda>(k, l). l @ asc '': '' @ str_at m k) (filter (\<lambda>(k, l). nonempty_at m k) fs))"
proof (induction fs arbitrary: parts)
  case Nil
  show ?case by simp
next
  case (Cons f fs)
  obtain k l where f: "f = (k, l)" by (cases f)
  show ?case
  proof (cases "nonempty_at m k")
    case True
    then obtain v where "py_getitem m k = Inr v" "py_format v = str_at m k"
      using getitem_nonempty by blast
    with True show ?thesis by (simp add: f truthy_get_iff Cons.IH)
  next
    case False
    then show ?thesis by (simp add: f truthy_get_iff Cons.IH)
  qed
qed

lemma candidate_loop_eq:
  "candidate_loop m ks l parts =
     Inr (parts @ (case find (nonempty_at m) ks of
                     Some k \<Rightarrow> [l @ asc '': '' @ str_at m k] | None \<Rightarrow> []))"
proof (induction ks)
  case Nil
  show ?case by simp
next
  case (Cons k ks)
  show ?case
  proof (cases "nonempty_at m k")
    case True
    then obtain v where "py_getitem m k = Inr v" "py_format v = str_at m k"
      using getitem_nonempty by blast
    with True show ?thesis by (simp add: truthy_get_iff)
  next
    case False
    then show ?thesis by (simp add: truthy_get_iff Cons.IH)
  qed
qed

lemma candidate_pair:
  "candidate_loop m [lo, up] l parts = Inr (parts @ casing_lines m [lo, up] l)"
  by (simp add: candidate_loop_eq)

lemma overview_loop_eq:
  "overview_loop m fs parts =
     Inr (parts @ map (\<lambda>(ks, l). l @ asc '': '' @ (case find (nonempty_at m) ks of Some k \<Rightarrow> str_at m k | None \<Rightarrow> []))
                      (filter (\<lambda>(ks, l). \<exists>k\<in>set ks. nonempty_at m k) fs))"
proof (induction fs arbitrary: parts)
  case Nil
  show ?case by simp
next
  case (Cons f fs)
  obtain ks l where f: "f = (ks, l)" by (cases f)
  show ?case
  proof (cases "find (nonempty_at m) ks")
    case None
    then have "\<not> (\<exists>k\<in>set ks. nonempty_at m k)" by (simp add: find_None_iff)
    with None show ?thesis by (simp add: f candidate_loop_eq Cons.IH)
  next
    case (Some k)
    then have "\<exists>k\<in>set ks. nonempty_at m k" by (auto simp: find_Some_iff)
    with Some show ?thesis by (simp add: f candidate_loop_eq Cons.IH)
  qed
qed

lemma overview_loop_casing:
  "\<forall>(ks, l)\<in>set fs. \<exists>lo up. ks = [lo, up] \<Longrightarrow>
   overview_loop m fs parts = Inr (parts @ concat (map (\<lambda>(ks, l). casing_lines m ks l) fs))"
proof (induction fs arbitrary: parts)
  case Nil
  show ?case by simp
next
  case (Cons f fs)
  obtain ks l where f: "f = (ks, l)" by (cases f)
  with Cons.prems obtain lo up where ks: "ks = [lo, up]" by auto
  from Cons.prems have rest: "\<forall>(ks, l)\<in>set fs. \<exists>lo up. ks = [lo, up]" by simp
  show ?case
    unfolding f ks overview_loop.simps candidate_pair
    by (simp add: Cons.IH [OF rest] del: casing_lines.simps)
qed

lemma overview_fields_casing:
  "(ks, l) \<in> set overview_fields \<Longrightarrow> \<exists>lo. ks = [lo, map ascii_upper lo]"
  by (auto simp: overview_fields_def asc_def ascii_upper_def)

lemma recognized_keys_schema: "recognized_keys st = concat (map fst (schema_fields st))"
  by (simp add: recognized_keys_def schema_fields_def permit_fields_def)

lemma ex_concat_filter:
  "(\<exists>k\<in>set (concat (map fst fs)). P k) \<longleftrightarrow> filter (\<lambda>(ks, l). \<exists>k\<in>set ks. P k) fs \<noteq> []"
  by (induction fs) auto

lemma some_key_nonempty_iff:
  "(\<exists>k\<in>set (recognized_keys st). nonempty_at m k) \<longleftrightarrow>
   filter (\<lambda>(ks, l). field_nonempty m ks) (schema_fields st) \<noteq> []"
  unfolding recognized_keys_schema field_nonempty_def by (rule ex_concat_filter)

text \<open>The formatter never raises, and computes the lines the specification asks for.\<close>

lemma format_medicine_data_eq:
  "format_medicine_data m st =
     Inr (if expected_lines m st \<noteq> [] then Some (py_join [0x0A] (expected_lines m st)) else None)"
proof (cases "st = asc ''permit''")
  case True
  have "map (\<lambda>(k, l). l @ asc '': '' @ str_at m k) (filter (\<lambda>(k, l). nonempty_at m k) fs) =
        map (\<lambda>(ks, l). l @ asc '': '' @ field_value m ks)
          (filter (\<lambda>(ks, l). field_nonempty m ks) (map (\<lambda>(k, l). ([k], l)) fs))" for fs
    by (induction fs) (auto simp: field_nonempty_def field_value_def)
  with True show ?thesis
    by (simp add: format_medicine_data_def permit_loop_eq expected_lines_def schema_fields_def)
next
  case False
  then show ?thesis
    by (simp add: format_medicine_data_def overview_loop_eq expected_lines_def schema_fields_def
        field_nonempty_def field_value_def)
qed

lemma expected_lines_Nil_iff:
  "expected_lines m st = [] \<longleftrightarrow> (\<forall>k\<in>set (recognized_keys st). \<not> nonempty_at m k)"
  using some_key_nonempty_iff [of st m] by (auto simp: expected_lines_def)

lemma expected_lines_hd_ne: "expected_lines m st \<noteq> [] \<Longrightarrow> hd (expected_lines m st) \<noteq> []"
proof -
  assume ne: "expected_lines m st \<noteq> []"
  have "\<forall>x\<in>set (expected_lines m st). x \<noteq> []"
    by (auto simp: expected_lines_def asc_colon_ne)
  with ne show ?thesis by simp
qed

lemma format_text_ne: "format_medicine_data m st = Inr (Some t) \<Longrightarrow> t \<noteq> []"
  by (auto simp: format_medicine_data_eq py_join_ne expected_lines_hd_ne split: if_splits)

section \<open>Facts about ingestion\<close>

lemma permit_records_list_all:
  "list_all (\<lambda>d. doc_text d \<noteq> []) docs \<Longrightarrow>
   list_all (\<lambda>d. doc_text d \<noteq> []) (fst (permit_records ms docs))"
  by (induction ms arbitrary: docs) (simp_all split: sum.splits option.splits)

lemma overview_records_list_all:
  "list_all (\<lambda>d. doc_text d \<noteq> []) docs \<Longrightarrow>
   list_all (\<lambda>d. doc_text d \<noteq> []) (fst (overview_records ms docs))"
  by (induction ms arbitrary: docs) (simp_all split: sum.splits option.splits)

lemma load_data_texts: "\<forall>d\<in>set (fst (load_data w)). doc_text d \<noteq> []"
proof -
  have e: "list_all (\<lambda>d. doc_text d \<noteq> []) (fst (permit_records ms []))" for ms
    by (rule permit_records_list_all) simp
  have n: "list_all (\<lambda>d. doc_text d \<noteq> []) (fst (overview_records ms []))" for ms
    by (rule overview_records_list_all) simp
  have "list_all (\<lambda>d. doc_text d \<noteq> []) (fst (load_data w))"
    unfolding load_data_def
    by (cases "e_data w"; cases "n_data w")
       (simp_all add: e n overview_records_list_all [OF e])
  then show ?thesis by (simp add: list_all_iff)
qed

text \<open>Once a record has raised, the records after it are not looked at.\<close>

lemma permit_records_append:
  "permit_records (pre @ post) docs =
     (case permit_records pre docs of
        (docs', None) \<Rightarrow> permit_records post docs'
      | (docs', Some e) \<Rightarrow> (docs', Some e))"
  by (induction pre arbitrary: docs) (simp_all split: sum.splits option.splits)

text \<open>A build without a persisted index does look for both source files.\<close>

lemma fresh_build_reads_sources:
  "index_dir w = None \<Longrightarrow> PathExists EDataPath \<in> set (snd (build_index w)) \<and>
     PathExists NDataPath \<in> set (snd (build_index w))"
  by (cases "e_data w"; cases "n_data w")
     (simp_all add: build_index_def load_data_def split: sum.splits option.splits prod.splits)

section \<open>Facts about the query\<close>

lemma not_found_message_visible: "\<not> whitespace_only not_found_message"
  by (simp add: whitespace_only_def not_found_message_def py_isspace_def)

lemma error_message_visible: "\<not> whitespace_only error_message"
  by (simp add: whitespace_only_def error_message_def py_isspace_def)

lemma py_print_iff: "py_print s = None \<longleftrightarrow> printable s"
  by (auto simp: py_print_def printable_def list_ex_iff)

lemma printable_append: "printable (a @ b) \<longleftrightarrow> printable a \<and> printable b"
  by (auto simp: printable_def)

lemma printable_fixed:
  "printable progress_prefix" "printable progress_suffix" "printable ocr_notice"
  "printable error_prefix"
  by (simp_all add: printable_def is_surrogate_def progress_prefix_def progress_suffix_def
      ocr_notice_def error_prefix_def)

lemma print_progress:
  "py_print (progress_prefix @ take 50 q @ progress_suffix) = None \<longleftrightarrow> printable (take 50 q)"
  by (simp add: py_print_iff printable_append printable_fixed)

lemma print_notice: "py_print ocr_notice = None"
  by (simp add: py_print_iff printable_fixed)

lemma print_error: "py_print (error_prefix @ msg) = None \<longleftrightarrow> printable msg"
  by (simp add: py_print_iff printable_append printable_fixed)

lemma py_print_cases: "py_print s = None \<or> py_print s = Some UnicodeEncodeError"
  by (simp add: py_print_def)

text \<open>A question that cannot be printed makes \<open>query\<close> raise before the \<open>try\<close>.\<close>

lemma query_unprintable:
  "\<not> printable (take 50 q) \<Longrightarrow> query sv self q ctx = Inl UnicodeEncodeError"
proof -
  assume "\<not> printable (take 50 q)"
  then have "py_print (progress_prefix @ take 50 q @ progress_suffix) \<noteq> None"
    by (simp add: print_progress)
  then have "py_print (progress_prefix @ take 50 q @ progress_suffix) = Some UnicodeEncodeError"
    using py_print_cases [of "progress_prefix @ take 50 q @ progress_suffix"] by auto
  then show ?thesis by (simp add: query_def)
qed

lemma query_cases:
  "printable (take 50 q) \<Longrightarrow>
   query sv self q ctx =
     (case generate_answer sv self (enhance_question q ctx) of
        Inl (e, msg) \<Rightarrow> if printable msg then Inr error_message else Inl UnicodeEncodeError
      | Inr a \<Rightarrow> Inr (if whitespace_only a then not_found_message else a))"
proof -
  assume p: "printable (take 50 q)"
  then have 1: "py_print (progress_prefix @ take 50 q @ progress_suffix) = None"
    by (simp add: print_progress)
  have 2: "(case ctx of None \<Rightarrow> None | Some c \<Rightarrow> if c \<noteq> [] then py_print ocr_notice else None) = None"
    by (simp add: print_notice split: option.splits)
  have 3: "py_print (error_prefix @ msg) = (if printable msg then None else Some UnicodeEncodeError)"
    for msg
    using py_print_cases [of "error_prefix @ msg"] by (auto simp: print_error)
  show ?thesis
    unfolding query_def Let_def 1 2
    by (auto simp: query_body_def 3 whitespace_only_strip py_strip_Nil split: sum.splits)
qed

lemma query_body_cases:
  "query_body sv self p =
     (case generate_answer sv self p of
        Inl e \<Rightarrow> Inl e
      | Inr a \<Rightarrow> Inr (if whitespace_only a then not_found_message else a))"
  by (auto simp: query_body_def whitespace_only_strip py_strip_Nil split: sum.splits)

text \<open>Whatever \<open>query\<close> returns, it is the answer of the body or the fixed error message.\<close>

lemma query_returns:
  "query sv self q ctx = Inr r \<Longrightarrow>
   r = error_message \<or> query_body sv self (enhance_question q ctx) = Inr r"
  by (auto simp: query_def Let_def split: option.splits sum.splits if_splits)

text \<open>The three category instructions are different strings, and none is empty.\<close>

lemma category_instructions_distinct:
  "side_effect_instruction \<noteq> dosage_instruction \<and>
   side_effect_instruction \<noteq> interaction_instruction \<and>
   dosage_instruction \<noteq> interaction_instruction \<and>
   side_effect_instruction \<noteq> [] \<and> dosage_instruction \<noteq> [] \<and> interaction_instruction \<noteq> []"
  by (simp add: side_effect_instruction_def dosage_instruction_def interaction_instruction_def)

section \<open>Facts about retrieval\<close>



section \<open>The claims\<close>

text \<open>
  Claim C1, as amended. For every question string whose first 50 code points hold no
  lone surrogate and every optional OCR context, \<open>query\<close> returns a string and does not
  raise, provided the text of an exception raised by retrieval or synthesis can be
  printed: such an exception of the query-engine call (indexed mode) or of the direct
  completion (no query engine) is caught and the fixed error message is returned.
\<close>

theorem query_returns_when_printable:
  assumes "printable (take 50 q)"
  shows "(query_engine self = Some qe \<and>
            engine_query sv qe (enhance_question q ctx) = Inl (e, msg) \<and> printable msg \<longrightarrow>
            query sv self q ctx = Inr error_message) \<and>
         (query_engine self = None \<and>
            llm_complete sv (enhance_question q ctx) = Inl (e, msg) \<and> printable msg \<longrightarrow>
            query sv self q ctx = Inr error_message) \<and>
         ((\<forall>e' msg'. generate_answer sv self (enhance_question q ctx) = Inl (e', msg') \<longrightarrow>
             printable msg') \<longrightarrow>
            (\<exists>answer. query sv self q ctx = Inr answer))"
proof (intro conjI impI)
  assume "query_engine self = Some qe \<and>
            engine_query sv qe (enhance_question q ctx) = Inl (e, msg) \<and> printable msg"
  then show "query sv self q ctx = Inr error_message"
    by (simp add: query_cases [OF assms] generate_answer_def)
next
  assume "query_engine self = None \<and>
            llm_complete sv (enhance_question q ctx) = Inl (e, msg) \<and> printable msg"
  then show "query sv self q ctx = Inr error_message"
    by (simp add: query_cases [OF assms] generate_answer_def)
next
  assume ok: "\<forall>e' msg'. generate_answer sv self (enhance_question q ctx) = Inl (e', msg') \<longrightarrow>
             printable msg'"
  show "\<exists>answer. query sv self q ctx = Inr answer"
  proof (cases "generate_answer sv self (enhance_question q ctx)")
    case (Inl x)
    obtain e' msg' where x: "x = (e', msg')" by (cases x)
    with Inl ok have "printable msg'" by blast
    with Inl x show ?thesis by (simp add: query_cases [OF assms])
  next
    case (Inr a)
    then show ?thesis by (simp add: query_cases [OF assms])
  qed
qed

theorem query_returns_when_printable_witness:
  "query (failing_services (asc ''timeout''))
     \<lparr>index = Some (VectorStoreIndex []),
      query_engine = Some (setup_query_engine (VectorStoreIndex []))\<rparr>
     (asc ''aspirin'') None = Inr error_message \<and>
   query (failing_services (asc ''timeout'')) \<lparr>index = None, query_engine = None\<rparr>
     (asc ''aspirin'') (Some (asc ''box'')) = Inr error_message \<and>
   (\<exists>answer. query echo_services \<lparr>index = None, query_engine = None\<rparr>
      (asc ''aspirin'') None = Inr answer)"
proof -
  have q: "printable (take 50 (asc ''aspirin''))"
    by (simp add: printable_def is_surrogate_def asc_def)
  have m: "printable (asc ''timeout'')"
    by (simp add: printable_def is_surrogate_def asc_def)
  from query_returns_when_printable
         [OF q, of "\<lparr>index = Some (VectorStoreIndex []),
                      query_engine = Some (setup_query_engine (VectorStoreIndex []))\<rparr>"
            "setup_query_engine (VectorStoreIndex [])" "failing_services (asc ''timeout'')"
            None ServiceError "asc ''timeout''"]
  have 1: "query (failing_services (asc ''timeout''))
     \<lparr>index = Some (VectorStoreIndex []),
      query_engine = Some (setup_query_engine (VectorStoreIndex []))\<rparr>
     (asc ''aspirin'') None = Inr error_message"
    by (simp add: m failing_services_def)
  from query_returns_when_printable
         [OF q, of "\<lparr>index = None, query_engine = None\<rparr>"
            "setup_query_engine (VectorStoreIndex [])" "failing_services (asc ''timeout'')"
            "Some (asc ''box'')" ServiceError "asc ''timeout''"]
  have 2: "query (failing_services (asc ''timeout'')) \<lparr>index = None, query_engine = None\<rparr>
     (asc ''aspirin'') (Some (asc ''box'')) = Inr error_message"
    by (simp add: m failing_services_def)
  from query_returns_when_printable
         [OF q, of "\<lparr>index = None, query_engine = None\<rparr>"
            "setup_query_engine (VectorStoreIndex [])" echo_services None]
  have 3: "\<exists>answer. query echo_services \<lparr>index = None, query_engine = None\<rparr>
      (asc ''aspirin'') None = Inr answer"
    by (simp add: generate_answer_def echo_services_def)
  from 1 2 3 show ?thesis by blast
qed

text \<open>
  Claim C1 as it is written fails. The progress line with \<open>question[:50]\<close> is printed
  before the \<open>try\<close>, so a question with a lone surrogate among its first 50 code points
  makes \<open>query\<close> raise; and the handler prints the text of the exception, so an
  exception whose text holds a lone surrogate makes the handler raise.
\<close>

theorem query_raises_on_lone_surrogate:
  "query echo_services \<lparr>index = None, query_engine = None\<rparr> [0xD800] None =
     Inl UnicodeEncodeError \<and>
   query (failing_services [0xDC00]) \<lparr>index = None, query_engine = None\<rparr>
     (asc ''aspirin'') None = Inl UnicodeEncodeError"
  by (simp add: query_def query_body_def generate_answer_def echo_services_def
      failing_services_def py_print_def is_surrogate_def progress_prefix_def
      progress_suffix_def error_prefix_def asc_def)

text \<open>
  Claim C2. In both modes of \<open>query\<close>, with a query engine and with the direct
  completion, an answer that is empty or whitespace-only is replaced by the fixed
  no-information message; so the string \<open>query\<close> returns is never empty or
  whitespace-only. An answer is generated only once the progress line has been printed,
  which is the condition on the question in the statements about \<open>query\<close>; the
  statements about the body of the \<open>try\<close> need none.
\<close>

theorem query_answer_never_blank:
  "(query_engine self = Some qe \<and> engine_query sv qe p = Inr a \<and> whitespace_only a \<longrightarrow>
      query_body sv self p = Inr not_found_message) \<and>
   (query_engine self = None \<and> llm_complete sv p = Inr a \<and> whitespace_only a \<longrightarrow>
      query_body sv self p = Inr not_found_message) \<and>
   (printable (take 50 q) \<and> query_engine self = Some qe \<and>
    engine_query sv qe (enhance_question q ctx) = Inr a \<and>
      whitespace_only a \<longrightarrow> query sv self q ctx = Inr not_found_message) \<and>
   (printable (take 50 q) \<and> query_engine self = None \<and>
    llm_complete sv (enhance_question q ctx) = Inr a \<and>
      whitespace_only a \<longrightarrow> query sv self q ctx = Inr not_found_message) \<and>
   (query sv self q ctx = Inr r \<longrightarrow> r \<noteq> [] \<and> \<not> whitespace_only r)"
proof (intro conjI impI)
  assume "query_engine self = Some qe \<and> engine_query sv qe p = Inr a \<and> whitespace_only a"
  then show "query_body sv self p = Inr not_found_message"
    by (simp add: query_body_cases generate_answer_def)
next
  assume "query_engine self = None \<and> llm_complete sv p = Inr a \<and> whitespace_only a"
  then show "query_body sv self p = Inr not_found_message"
    by (simp add: query_body_cases generate_answer_def)
next
  assume "printable (take 50 q) \<and> query_engine self = Some qe \<and>
    engine_query sv qe (enhance_question q ctx) = Inr a \<and> whitespace_only a"
  then show "query sv self q ctx = Inr not_found_message"
    by (simp add: query_cases generate_answer_def)
next
  assume "printable (take 50 q) \<and> query_engine self = None \<and>
    llm_complete sv (enhance_question q ctx) = Inr a \<and> whitespace_only a"
  then show "query sv self q ctx = Inr not_found_message"
    by (simp add: query_cases generate_answer_def)
next
  assume r: "query sv self q ctx = Inr r"
  have "\<not> whitespace_only r"
  proof (cases "r = error_message")
    case True
    then show ?thesis by (simp add: error_message_visible)
  next
    case False
    with query_returns [OF r] have "query_body sv self (enhance_question q ctx) = Inr r"
      by simp
    then show ?thesis
      using not_found_message_visible
      by (auto simp: query_body_cases split: sum.splits if_splits)
  qed
  then show "\<not> whitespace_only r" .
  then show "r \<noteq> []" by (auto simp: whitespace_only_def)
qed

theorem query_answer_never_blank_witness:
  "query \<lparr>engine_query = (\<lambda>qe p. Inr []), llm_complete = (\<lambda>p. Inr [0x20, 0x0A])\<rparr>
     \<lparr>index = None, query_engine = None\<rparr> (asc ''aspirin'') None = Inr not_found_message \<and>
   query \<lparr>engine_query = (\<lambda>qe p. Inr []), llm_complete = (\<lambda>p. Inr [0x20, 0x0A])\<rparr>
     \<lparr>index = Some (VectorStoreIndex []),
      query_engine = Some (setup_query_engine (VectorStoreIndex []))\<rparr>
     (asc ''aspirin'') None = Inr not_found_message \<and>
   not_found_message \<noteq> [] \<and> \<not> whitespace_only not_found_message"
  using query_answer_never_blank
    [where sv = "\<lparr>engine_query = (\<lambda>qe p. Inr []), llm_complete = (\<lambda>p. Inr [0x20, 0x0A])\<rparr>"
       and self = "\<lparr>index = None, query_engine = None\<rparr>" and q = "asc ''aspirin''"
       and ctx = None and a = "[0x20, 0x0A]" and r = not_found_message]
    query_answer_never_blank
    [where sv = "\<lparr>engine_query = (\<lambda>qe p. Inr []), llm_complete = (\<lambda>p. Inr [0x20, 0x0A])\<rparr>"
       and self = "\<lparr>index = Some (VectorStoreIndex []),
                     query_engine = Some (setup_query_engine (VectorStoreIndex []))\<rparr>"
       and q = "asc ''aspirin''" and ctx = None and a = "[]"
       and qe = "setup_query_engine (VectorStoreIndex [])" and r = not_found_message]
  by (simp add: whitespace_only_def py_isspace_def printable_def is_surrogate_def asc_def)




text \<open>
  Claim C4. Question enhancement appends at most one category instruction, chosen on the
  raw question with the first match winning: the side-effect instruction when the
  question contains the side-effect term; else the dosage instruction when it contains
  the usage or the dosage term; else the interaction instruction when it contains the
  interaction or the together term; else nothing. A question with both a side-effect
  term and a dosage term gets the side-effect instruction only.
\<close>

theorem enhance_question_first_match:
  "(py_in side_effect_term q \<longrightarrow>
      enhance_question q ctx = prompt_body q ctx @ side_effect_instruction) \<and>
   (\<not> py_in side_effect_term q \<and> (py_in usage_term q \<or> py_in dosage_term q) \<longrightarrow>
      enhance_question q ctx = prompt_body q ctx @ dosage_instruction) \<and>
   (\<not> py_in side_effect_term q \<and> \<not> py_in usage_term q \<and> \<not> py_in dosage_term q \<and>
    (py_in interaction_term q \<or> py_in together_term q) \<longrightarrow>
      enhance_question q ctx = prompt_body q ctx @ interaction_instruction) \<and>
   (\<not> py_in side_effect_term q \<and> \<not> py_in usage_term q \<and> \<not> py_in dosage_term q \<and>
    \<not> py_in interaction_term q \<and> \<not> py_in together_term q \<longrightarrow>
      enhance_question q ctx = prompt_body q ctx)"
  by (simp add: enhance_question_def prompt_body_def split: option.splits)

theorem enhance_question_first_match_witness:
  "py_in side_effect_term [0xBD80, 0xC791, 0xC6A9, 0x20, 0xC6A9, 0xB7C9] \<and>
   py_in dosage_term [0xBD80, 0xC791, 0xC6A9, 0x20, 0xC6A9, 0xB7C9] \<and>
   enhance_question [0xBD80, 0xC791, 0xC6A9, 0x20, 0xC6A9, 0xB7C9] None =
     prompt_body [0xBD80, 0xC791, 0xC6A9, 0x20, 0xC6A9, 0xB7C9] None @ side_effect_instruction \<and>
   enhance_question [0xAC19, 0xC774, 0x20, 0xC6A9, 0xBC95] (Some (asc ''box'')) =
     prompt_body [0xAC19, 0xC774, 0x20, 0xC6A9, 0xBC95] (Some (asc ''box'')) @ dosage_instruction"
  using enhance_question_first_match [of "[0xBD80, 0xC791, 0xC6A9, 0x20, 0xC6A9, 0xB7C9]" None]
    enhance_question_first_match [of "[0xAC19, 0xC774, 0x20, 0xC6A9, 0xBC95]" "Some (asc ''box'')"]
  by (simp add: side_effect_term_def dosage_term_def usage_term_def)

text \<open>
  Claim C5. For every medicine record and either schema variant, the formatter returns
  \<open>None\<close> exactly when no recognized key of the variant holds a non-empty value; the
  ingestion loops create no document for such a record, and no document with an empty
  text is ever created.
\<close>

theorem no_document_for_empty_record:
  "(format_medicine_data m st = Inr None \<longleftrightarrow>
      (\<forall>k\<in>set (recognized_keys st). \<not> nonempty_at m k)) \<and>
   ((\<forall>k\<in>set (recognized_keys (asc ''permit'')). \<not> nonempty_at m k) \<longrightarrow>
      permit_records (m # rest) docs = permit_records rest docs) \<and>
   ((\<forall>k\<in>set (recognized_keys (asc ''overview'')). \<not> nonempty_at m k) \<longrightarrow>
      overview_records (m # rest) docs = overview_records rest docs) \<and>
   (\<forall>d\<in>set (fst (load_data w)). doc_text d \<noteq> [])"
proof (intro conjI impI)
  show "format_medicine_data m st = Inr None \<longleftrightarrow>
      (\<forall>k\<in>set (recognized_keys st). \<not> nonempty_at m k)"
    by (simp add: format_medicine_data_eq expected_lines_Nil_iff)
next
  assume "\<forall>k\<in>set (recognized_keys (asc ''permit'')). \<not> nonempty_at m k"
  then have "format_medicine_data m (asc ''permit'') = Inr None"
    by (simp add: format_medicine_data_eq expected_lines_Nil_iff)
  then show "permit_records (m # rest) docs = permit_records rest docs"
    by simp
next
  assume "\<forall>k\<in>set (recognized_keys (asc ''overview'')). \<not> nonempty_at m k"
  then have "format_medicine_data m (asc ''overview'') = Inr None"
    by (simp add: format_medicine_data_eq expected_lines_Nil_iff)
  then show "overview_records (m # rest) docs = overview_records rest docs"
    by simp
next
  show "\<forall>d\<in>set (fst (load_data w)). doc_text d \<noteq> []"
    by (rule load_data_texts)
qed

theorem no_document_for_empty_record_witness:
  "format_medicine_data
     [asc ''itemName'' \<mapsto> JStr [], asc ''entpName'' \<mapsto> JNull, asc ''note'' \<mapsto> JStr (asc ''x'')]
     (asc ''permit'') = Inr None \<and>
   permit_records
     [[asc ''itemName'' \<mapsto> JStr [], asc ''entpName'' \<mapsto> JNull, asc ''note'' \<mapsto> JStr (asc ''x'')]]
     [] = ([], None) \<and>
   overview_records
     [[asc ''itemName'' \<mapsto> JStr [], asc ''entpName'' \<mapsto> JNull, asc ''note'' \<mapsto> JStr (asc ''x'')]]
     [] = ([], None)"
  using no_document_for_empty_record
    [of "[asc ''itemName'' \<mapsto> JStr [], asc ''entpName'' \<mapsto> JNull, asc ''note'' \<mapsto> JStr (asc ''x'')]"
        "asc ''permit''" "[]" "[]"]
  by (simp add: recognized_keys_def permit_fields_def overview_fields_def nonempty_at_def)

text \<open>
  Claim C6. For every medicine record with at least one non-empty recognized field, the
  formatted text is the newline-join of exactly one \<open>label: value\<close> line per non-empty
  field, in the fixed priority order of the schema variant, with no line for an absent or
  empty field. A field of the overview variant is a logical field with its two casings;
  its value is the one under the first non-empty candidate key.
\<close>

theorem formatted_text_lines:
  assumes "\<exists>k\<in>set (recognized_keys st). nonempty_at m k"
  shows "format_medicine_data m st =
           Inr (Some (py_join [0x0A]
             (map (\<lambda>(keys, label). label @ asc '': '' @ field_value m keys)
               (filter (\<lambda>(keys, label). field_nonempty m keys) (schema_fields st)))))"
proof -
  from assms have "expected_lines m st \<noteq> []"
    by (simp add: expected_lines_Nil_iff)
  then show ?thesis
    by (simp add: format_medicine_data_eq) (simp add: expected_lines_def)
qed

theorem formatted_text_lines_witness:
  "format_medicine_data
     [asc ''seQesitm'' \<mapsto> JStr (asc ''nausea''), asc ''entpName'' \<mapsto> JStr [],
      asc ''itemName'' \<mapsto> JStr (asc ''Tylenol'')]
     (asc ''permit'') =
   Inr (Some ([0xC758, 0xC57D, 0xD488, 0xBA85] @ asc '': Tylenol'' @ [0x0A] @
              [0xBD80, 0xC791, 0xC6A9] @ asc '': nausea'')) \<and>
   format_medicine_data
     [asc ''CHART'' \<mapsto> JStr (asc ''white''), asc ''ITEM_NAME'' \<mapsto> JStr (asc ''B''),
      asc ''item_name'' \<mapsto> JStr (asc ''a''), asc ''chart'' \<mapsto> JNull]
     (asc ''overview'') =
   Inr (Some ([0xC758, 0xC57D, 0xD488, 0xBA85] @ asc '': a'' @ [0x0A] @
              [0xC131, 0xC0C1] @ asc '': white''))"
  using formatted_text_lines
    [of "asc ''permit''"
        "[asc ''seQesitm'' \<mapsto> JStr (asc ''nausea''), asc ''entpName'' \<mapsto> JStr [],
          asc ''itemName'' \<mapsto> JStr (asc ''Tylenol'')]"]
    formatted_text_lines
    [of "asc ''overview''"
        "[asc ''CHART'' \<mapsto> JStr (asc ''white''), asc ''ITEM_NAME'' \<mapsto> JStr (asc ''B''),
          asc ''item_name'' \<mapsto> JStr (asc ''a''), asc ''chart'' \<mapsto> JNull]"]
  by (simp add: recognized_keys_def schema_fields_def permit_fields_def overview_fields_def
      nonempty_at_def field_nonempty_def field_value_def str_at_def asc_def)

text \<open>
  Claim C7. In overview formatting, the candidate keys of each logical field are the
  lower-case key and then its upper-case form, tried in that order, and the first
  non-empty one is used: with one casing populated its value is rendered; with both
  populated exactly one line is produced, with the value under the lower-case key.
\<close>

theorem overview_casing_priority:
  assumes "(ks, l) \<in> set overview_fields"
  shows "(\<exists>lower. ks = [lower, map ascii_upper lower] \<and>
           candidate_loop m ks l parts =
             Inr (parts @
               (if nonempty_at m lower then [l @ asc '': '' @ str_at m lower]
                else if nonempty_at m (map ascii_upper lower)
                     then [l @ asc '': '' @ str_at m (map ascii_upper lower)]
                else []))) \<and>
         (st \<noteq> asc ''permit'' \<longrightarrow>
            format_medicine_data m st =
              Inr (if concat (map (\<lambda>(ks, l). casing_lines m ks l) overview_fields) \<noteq> []
                   then Some (py_join [0x0A]
                          (concat (map (\<lambda>(ks, l). casing_lines m ks l) overview_fields)))
                   else None))"
proof
  from assms obtain lower where "ks = [lower, map ascii_upper lower]"
    using overview_fields_casing by blast
  then show "\<exists>lower. ks = [lower, map ascii_upper lower] \<and>
           candidate_loop m ks l parts =
             Inr (parts @
               (if nonempty_at m lower then [l @ asc '': '' @ str_at m lower]
                else if nonempty_at m (map ascii_upper lower)
                     then [l @ asc '': '' @ str_at m (map ascii_upper lower)]
                else []))"
    by (simp add: candidate_pair del: candidate_loop.simps)
next
  have pairs: "\<forall>(ks, l)\<in>set overview_fields. \<exists>lo up. ks = [lo, up]"
    using overview_fields_casing by blast
  show "st \<noteq> asc ''permit'' \<longrightarrow>
            format_medicine_data m st =
              Inr (if concat (map (\<lambda>(ks, l). casing_lines m ks l) overview_fields) \<noteq> []
                   then Some (py_join [0x0A]
                          (concat (map (\<lambda>(ks, l). casing_lines m ks l) overview_fields)))
                   else None)"
    by (simp add: format_medicine_data_def overview_loop_casing [OF pairs])
qed

theorem overview_casing_priority_witness:
  "candidate_loop [asc ''item_name'' \<mapsto> JStr (asc ''a''), asc ''ITEM_NAME'' \<mapsto> JStr (asc ''B'')]
     [asc ''item_name'', asc ''ITEM_NAME''] [0xC758, 0xC57D, 0xD488, 0xBA85] [] =
   Inr [[0xC758, 0xC57D, 0xD488, 0xBA85] @ asc '': '' @ asc ''a''] \<and>
   format_medicine_data
     [asc ''item_name'' \<mapsto> JStr (asc ''a''), asc ''ITEM_NAME'' \<mapsto> JStr (asc ''B'')]
     (asc ''overview'') =
   Inr (Some ([0xC758, 0xC57D, 0xD488, 0xBA85] @ asc '': '' @ asc ''a''))"
  using overview_casing_priority
    [of "[asc ''item_name'', asc ''ITEM_NAME'']" "[0xC758, 0xC57D, 0xD488, 0xBA85]"
        "[asc ''item_name'' \<mapsto> JStr (asc ''a''), asc ''ITEM_NAME'' \<mapsto> JStr (asc ''B'')]" "[]"
        "asc ''overview''"]
  by (simp add: overview_fields_def nonempty_at_def str_at_def asc_def ascii_upper_def
      del: candidate_loop.simps)

text \<open>
  Claim C8. When the persisted index directory exists, index construction loads the
  index from it and does no corpus ingestion: the run checks the directory and loads the
  index, it never looks for, reads or parses a source file, and its outcome does not
  depend on what the source files hold.
\<close>

theorem persisted_index_skips_ingestion:
  assumes "index_dir w = Some stored"
  shows "snd (build_index w) = [PathExists IndexPath, LoadIndexFromStorage] \<and>
         (\<forall>p. ReadJson p \<notin> set (snd (build_index w))) \<and>
         fst (build_index w) =
           (case stored of
              Inl e \<Rightarrow> Inl e
            | Inr ix \<Rightarrow> Inr \<lparr>index = Some ix, query_engine = Some (setup_query_engine ix)\<rparr>) \<and>
         build_index (w\<lparr>e_data := e', n_data := n'\<rparr>) = build_index w"
  using assms by (simp add: build_index_def split: sum.splits)

theorem persisted_index_skips_ingestion_witness:
  "snd (build_index
     \<lparr>index_dir = Some (Inr (VectorStoreIndex [])),
      e_data = Parsed [[asc ''itemName'' \<mapsto> JStr (asc ''A'')]], n_data = Unreadable,
      from_documents = (\<lambda>ds. Inr (VectorStoreIndex ds)), persist = (\<lambda>ix. None)\<rparr>) =
   [PathExists IndexPath, LoadIndexFromStorage] \<and>
   fst (build_index
     \<lparr>index_dir = Some (Inr (VectorStoreIndex [])),
      e_data = Parsed [[asc ''itemName'' \<mapsto> JStr (asc ''A'')]], n_data = Unreadable,
      from_documents = (\<lambda>ds. Inr (VectorStoreIndex ds)), persist = (\<lambda>ix. None)\<rparr>) =
   Inr \<lparr>index = Some (VectorStoreIndex []),
        query_engine = Some (setup_query_engine (VectorStoreIndex []))\<rparr>"
  using persisted_index_skips_ingestion
    [of "\<lparr>index_dir = Some (Inr (VectorStoreIndex [])),
          e_data = Parsed [[asc ''itemName'' \<mapsto> JStr (asc ''A'')]], n_data = Unreadable,
          from_documents = (\<lambda>ds. Inr (VectorStoreIndex ds)), persist = (\<lambda>ix. None)\<rparr>"
        "Inr (VectorStoreIndex [])"]
  by simp

text \<open>
  Claim C9. While the permit file is ingested, a record whose \<open>itemName\<close> key is present
  and maps to null, with at least one recognized field non-empty, makes the metadata
  construction slice \<open>None\<close> and raise \<open>TypeError\<close>. The handler of the file catches it:
  the records after it contribute no document, and the documents of the records before it
  are kept.
\<close>

theorem null_item_name_skips_rest:
  assumes "m (asc ''itemName'') = Some JNull"
    and "\<exists>k\<in>set (recognized_keys (asc ''permit'')). nonempty_at m k"
  shows "py_slice100 (py_get m (asc ''itemName'') (JStr [])) = Inl TypeError \<and>
         fst (permit_records (pre @ m # post) docs) = fst (permit_records pre docs) \<and>
         (snd (permit_records pre docs) = None \<longrightarrow>
            snd (permit_records (pre @ m # post) docs) = Some TypeError) \<and>
         (e_data w = Parsed (pre @ m # post) \<longrightarrow>
            fst (load_data w) = fst (load_data (w\<lparr>e_data := Parsed pre\<rparr>)))"
proof -
  have slice: "py_slice100 (py_get m (asc ''itemName'') (JStr [])) = Inl TypeError"
    using assms(1) by (simp add: py_get_def)
  from assms(2) have "expected_lines m (asc ''permit'') \<noteq> []"
    by (simp add: expected_lines_Nil_iff)
  then obtain t where t: "format_medicine_data m (asc ''permit'') = Inr (Some t)"
    by (simp add: format_medicine_data_eq)
  then have "t \<noteq> []" by (rule format_text_ne)
  with t slice have step: "permit_records (m # post) d = (d, Some TypeError)" for d
    by simp
  have fst_eq: "fst (permit_records (pre @ m # post) ds) = fst (permit_records pre ds)" for ds
    by (cases "permit_records pre ds")
       (simp add: permit_records_append step del: permit_records.simps split: option.splits)
  have snd_eq: "snd (permit_records pre docs) = None \<longrightarrow>
            snd (permit_records (pre @ m # post) docs) = Some TypeError"
    by (cases "permit_records pre docs")
       (simp add: permit_records_append step del: permit_records.simps)
  have "e_data w = Parsed (pre @ m # post) \<longrightarrow>
            fst (load_data w) = fst (load_data (w\<lparr>e_data := Parsed pre\<rparr>))"
    by (simp add: load_data_def fst_eq)
  with slice fst_eq snd_eq show ?thesis by blast
qed

theorem null_item_name_skips_rest_witness:
  "permit_records
     [[asc ''itemName'' \<mapsto> JStr (asc ''A'')],
      [asc ''itemName'' \<mapsto> JNull, asc ''entpName'' \<mapsto> JStr (asc ''Acme'')],
      [asc ''itemName'' \<mapsto> JStr (asc ''C'')]] [] =
   ([\<lparr>doc_text = [0xC758, 0xC57D, 0xD488, 0xBA85] @ asc '': A'', doc_source = asc ''permit'',
      doc_item_name = asc ''A''\<rparr>], Some TypeError)"
proof -
  have null: "[asc ''itemName'' \<mapsto> JNull, asc ''entpName'' \<mapsto> JStr (asc ''Acme'')]
                (asc ''itemName'') = Some JNull"
    by simp
  have some: "\<exists>k\<in>set (recognized_keys (asc ''permit'')).
                nonempty_at [asc ''itemName'' \<mapsto> JNull, asc ''entpName'' \<mapsto> JStr (asc ''Acme'')] k"
    by (simp add: recognized_keys_def permit_fields_def nonempty_at_def asc_def)
  have earlier: "permit_records [[asc ''itemName'' \<mapsto> JStr (asc ''A'')]] [] =
      ([\<lparr>doc_text = [0xC758, 0xC57D, 0xD488, 0xBA85] @ asc '': A'', doc_source = asc ''permit'',
         doc_item_name = asc ''A''\<rparr>], None)"
    by (simp add: format_medicine_data_def permit_fields_def py_get_def py_getitem_def asc_def)
  from null_item_name_skips_rest
         [OF null some, of "[[asc ''itemName'' \<mapsto> JStr (asc ''A'')]]"
            "[[asc ''itemName'' \<mapsto> JStr (asc ''C'')]]" "[]"]
  show ?thesis
    by (simp add: earlier prod_eq_iff del: permit_records.simps)
qed

text \<open>
  Claim C10. \<open>format_for_llm\<close> returns \<open>None\<close> exactly when its input is \<open>None\<close>, the
  empty string or a whitespace-only string; for every other input it returns the fixed
  template around the whitespace-stripped input text.
\<close>

theorem format_for_llm_none_iff:
  "(format_for_llm t = None \<longleftrightarrow>
      t = None \<or> t = Some [] \<or> (\<exists>s. t = Some s \<and> s \<noteq> [] \<and> whitespace_only s)) \<and>
   (\<forall>s. t = Some s \<and> \<not> whitespace_only s \<longrightarrow>
      format_for_llm t = Some (ocr_heading @ py_strip s @ ocr_closing))"
  by (cases t) (auto simp: format_for_llm_def whitespace_only_strip Let_def py_strip_def)

theorem format_for_llm_none_iff_witness:
  "format_for_llm (Some (asc '' Tylenol '')) = Some (ocr_heading @ asc ''Tylenol'' @ ocr_closing) \<and>
   format_for_llm (Some (asc ''  '')) = None"
  using format_for_llm_none_iff [of "Some (asc '' Tylenol '')"]
    format_for_llm_none_iff [of "Some (asc ''  '')"]
  by (simp add: whitespace_only_def py_strip_def py_isspace_def asc_def)

end
